theory Spec2Isabelle
  imports Main "HOL-Library.Word"
begin

unbundle bit_operations_syntax

section \<open>Symbol attribute model (llvm/MC/MCSymbolVPE.h)\<close>

text \<open>
  The state of one symbol that \<open>MCSymbolVPE\<close> reads and writes: the flags word of the
  base class \<open>MCSymbol\<close> and the \<open>mutable uint16_t Type\<close> member, initialised to 0.
\<close>

record MCSymbolVPE =
  Flags :: "16 word"
  Type :: "16 word"

text \<open>\<open>enum SymbolFlags : uint16_t\<close>.\<close>

definition SF_ClassMask :: "16 word" where
  "SF_ClassMask = 0x00FF"

definition SF_ClassShift :: nat where
  "SF_ClassShift = 0"

definition SF_WeakExternal :: "16 word" where
  "SF_WeakExternal = 0x0100"

text \<open>
  Modelled from the spec: \<open>MCSymbol::getFlags\<close> and \<open>MCSymbol::modifyFlags\<close> are members
  of the base class in llvm/MC/MCSymbol.h, which is not among the sources. The spec calls
  the setters a read-modify-write of the symbol's one flags word: \<open>getFlags\<close> reads the
  word, \<open>modifyFlags Value Mask\<close> clears the bits of \<open>Mask\<close> and sets the bits of
  \<open>Value\<close>. The flags word is taken 16 bits wide, the underlying type of \<open>SymbolFlags\<close>.
\<close>

definition getFlags :: "MCSymbolVPE \<Rightarrow> 16 word" where
  "getFlags s = Flags s"

definition modifyFlags :: "16 word \<Rightarrow> 16 word \<Rightarrow> MCSymbolVPE \<Rightarrow> MCSymbolVPE" where
  "modifyFlags Value Mask s = s\<lparr>Flags := (Flags s AND NOT Mask) OR Value\<rparr>"

definition getType :: "MCSymbolVPE \<Rightarrow> 16 word" where
  "getType s = Type s"

definition setType :: "16 word \<Rightarrow> MCSymbolVPE \<Rightarrow> MCSymbolVPE" where
  "setType Ty s = s\<lparr>Type := Ty\<rparr>"

definition getClass :: "MCSymbolVPE \<Rightarrow> 16 word" where
  "getClass s = drop_bit SF_ClassShift (getFlags s AND SF_ClassMask)"

definition setClass :: "16 word \<Rightarrow> MCSymbolVPE \<Rightarrow> MCSymbolVPE" where
  "setClass StorageClass s = modifyFlags (push_bit SF_ClassShift StorageClass) SF_ClassMask s"

definition isWeakExternal :: "MCSymbolVPE \<Rightarrow> bool" where
  "isWeakExternal s = (getFlags s AND SF_WeakExternal \<noteq> 0)"

definition setIsWeakExternal :: "MCSymbolVPE \<Rightarrow> MCSymbolVPE" where
  "setIsWeakExternal s = modifyFlags SF_WeakExternal SF_WeakExternal s"

text \<open>The mutating operations of the class, and a run of them on one symbol.\<close>

datatype SymbolOp = SetType "16 word" | SetClass "16 word" | SetIsWeakExternal

fun applyOp :: "SymbolOp \<Rightarrow> MCSymbolVPE \<Rightarrow> MCSymbolVPE" where
  "applyOp (SetType Ty) s = setType Ty s"
| "applyOp (SetClass c) s = setClass c s"
| "applyOp SetIsWeakExternal s = setIsWeakExternal s"

fun applyOps :: "SymbolOp list \<Rightarrow> MCSymbolVPE \<Rightarrow> MCSymbolVPE" where
  "applyOps [] s = s"
| "applyOps (op # ops) s = applyOps ops (applyOp op s)"

text \<open>A symbol as its constructor leaves it (no flag set, \<open>Type = 0\<close>).\<close>

definition newSymbol :: MCSymbolVPE where
  "newSymbol = \<lparr>Flags = 0, Type = 0\<rparr>"

section \<open>Relocation resolver (X86VPEObjectWriter.cpp)\<close>

text \<open>
  The fixup kinds the resolver names, from \<open>enum MCFixupKind\<close> and
  \<open>enum X86::Fixups\<close>. The resolver reads the kind as an \<open>unsigned\<close> and compares it with
  these enumerators; all of them label one \<open>switch\<close>, so they are pairwise different.
  \<open>FK_Other\<close> stands for every kind the file does not name.
\<close>

datatype MCFixupKind =
    FK_Data_4
  | FK_Data_8
  | FK_PCRel_4
  | FK_SecRel_2
  | FK_SecRel_4
  | reloc_riprel_4byte
  | reloc_riprel_4byte_movq_load
  | reloc_riprel_4byte_relax
  | reloc_riprel_4byte_relax_rex
  | reloc_signed_4byte
  | reloc_signed_4byte_relax
  | reloc_branch_4byte_pcrel
  | FK_Other nat

text \<open>\<open>MCSymbolRefExpr::VariantKind\<close>: the three modifiers the resolver tests, and the rest.\<close>

datatype VariantKind = VK_None | VK_COFF_IMGREL32 | VK_SECREL | VK_Other nat

text \<open>
  \<open>COFF::MachineTypes\<close>. The writer's constructor only ever stores the first two;
  \<open>IMAGE_FILE_MACHINE_UNKNOWN\<close> stands for any other machine.
\<close>

datatype MachineTypes =
  IMAGE_FILE_MACHINE_AMD64 | IMAGE_FILE_MACHINE_I386 | IMAGE_FILE_MACHINE_UNKNOWN

text \<open>
  Modelled from the spec: the numeric relocation codes of llvm/BinaryFormat/COFF.h, which is
  not among the sources. The spec requires them to be the published constant values of
  the format, one constant space for each machine; these are the published values.
\<close>

definition IMAGE_REL_AMD64_ADDR64 :: "32 word" where "IMAGE_REL_AMD64_ADDR64 = 0x0001"
definition IMAGE_REL_AMD64_ADDR32 :: "32 word" where "IMAGE_REL_AMD64_ADDR32 = 0x0002"
definition IMAGE_REL_AMD64_ADDR32NB :: "32 word" where "IMAGE_REL_AMD64_ADDR32NB = 0x0003"
definition IMAGE_REL_AMD64_REL32 :: "32 word" where "IMAGE_REL_AMD64_REL32 = 0x0004"
definition IMAGE_REL_AMD64_SECTION :: "32 word" where "IMAGE_REL_AMD64_SECTION = 0x000A"
definition IMAGE_REL_AMD64_SECREL :: "32 word" where "IMAGE_REL_AMD64_SECREL = 0x000B"

definition IMAGE_REL_I386_DIR32 :: "32 word" where "IMAGE_REL_I386_DIR32 = 0x0006"
definition IMAGE_REL_I386_DIR32NB :: "32 word" where "IMAGE_REL_I386_DIR32NB = 0x0007"
definition IMAGE_REL_I386_SECTION :: "32 word" where "IMAGE_REL_I386_SECTION = 0x000A"
definition IMAGE_REL_I386_SECREL :: "32 word" where "IMAGE_REL_I386_SECREL = 0x000B"
definition IMAGE_REL_I386_REL32 :: "32 word" where "IMAGE_REL_I386_REL32 = 0x0014"

text \<open>
  The target expression \<open>MCValue\<close>: two nullable pointers to symbol references and a
  constant. A pointer is \<open>None\<close> when null and otherwise carries the \<open>VariantKind\<close> that
  \<open>getKind\<close> reads through it.
\<close>

record MCValue =
  SymA :: "VariantKind option"
  SymB :: "VariantKind option"
  Cst :: int

definition isAbsolute :: "MCValue \<Rightarrow> bool" where
  "isAbsolute V = (SymA V = None \<and> SymB V = None)"

text \<open>The fixup: its kind, its source location and its offset.\<close>

record MCFixup =
  Kind :: MCFixupKind
  Loc :: nat
  Offset :: "32 word"

definition getKind :: "MCFixup \<Rightarrow> MCFixupKind" where
  "getKind F = Kind F"

definition getLoc :: "MCFixup \<Rightarrow> nat" where
  "getLoc F = Loc F"

text \<open>
  Modelled from the spec: \<open>MCContext::reportError\<close> (llvm/MC/MCContext.h, not among the
  sources) is the diagnostic channel of the caller; a report is a message tagged with the
  source location, and the context keeps the reports in the order they were made.
\<close>

record MCContext =
  Diagnostics :: "(nat \<times> string) list"

definition reportError :: "nat \<Rightarrow> string \<Rightarrow> MCContext \<Rightarrow> MCContext" where
  "reportError L Msg Ctx = Ctx\<lparr>Diagnostics := Diagnostics Ctx @ [(L, Msg)]\<rparr>"

text \<open>
  The writer holds the machine its constructor chose from \<open>Is64Bit\<close>.
\<close>

record X86VPEObjectWriter =
  Machine :: MachineTypes

definition createX86VPEObjectWriter :: "bool \<Rightarrow> X86VPEObjectWriter" where
  "createX86VPEObjectWriter Is64Bit =
     \<lparr>Machine = (if Is64Bit then IMAGE_FILE_MACHINE_AMD64 else IMAGE_FILE_MACHINE_I386)\<rparr>"

definition getMachine :: "X86VPEObjectWriter \<Rightarrow> MachineTypes" where
  "getMachine W = Machine W"

text \<open>
  The two ways \<open>getRelocType\<close> can fail to return: \<open>Target.getSymA()->getKind()\<close> through
  a null \<open>SymA\<close> (a target that is not absolute because only \<open>SymB\<close> is set), and
  \<open>llvm_unreachable\<close> for a machine that is neither AMD64 nor I386.
\<close>

datatype fault = NullSymbolDereference | UnsupportedMachine

text \<open>Lines 54-55: the modifier of the target expression.\<close>

definition getModifier :: "MCValue \<Rightarrow> fault + VariantKind" where
  "getModifier Target =
     (if isAbsolute Target then Inr VK_None
      else case SymA Target of
             None \<Rightarrow> Inl NullSymbolDereference
           | Some k \<Rightarrow> Inr k)"

text \<open>
  \<open>X86VPEObjectWriter::getRelocType\<close>. The context is passed in and returned with the
  diagnostics this call reported; the unused \<open>MCAsmBackend\<close> argument is left out.
\<close>

definition getRelocType ::
  "X86VPEObjectWriter \<Rightarrow> MCContext \<Rightarrow> MCValue \<Rightarrow> MCFixup \<Rightarrow> bool
     \<Rightarrow> fault + (32 word \<times> MCContext)" where
  "getRelocType W Ctx Target Fixup IsCrossSection =
     (if IsCrossSection \<and> getKind Fixup \<noteq> FK_Data_4 \<and> getKind Fixup \<noteq> reloc_signed_4byte
      then Inr (IMAGE_REL_AMD64_ADDR32,
                reportError (getLoc Fixup) ''Cannot represent this expression'' Ctx)
      else
        let FixupKind = (if IsCrossSection then FK_PCRel_4 else getKind Fixup) in
        case getModifier Target of
          Inl e \<Rightarrow> Inl e
        | Inr Modifier \<Rightarrow>
            if getMachine W = IMAGE_FILE_MACHINE_AMD64 then
              (case FixupKind of
                 FK_PCRel_4 \<Rightarrow> Inr (IMAGE_REL_AMD64_REL32, Ctx)
               | reloc_riprel_4byte \<Rightarrow> Inr (IMAGE_REL_AMD64_REL32, Ctx)
               | reloc_riprel_4byte_movq_load \<Rightarrow> Inr (IMAGE_REL_AMD64_REL32, Ctx)
               | reloc_riprel_4byte_relax \<Rightarrow> Inr (IMAGE_REL_AMD64_REL32, Ctx)
               | reloc_riprel_4byte_relax_rex \<Rightarrow> Inr (IMAGE_REL_AMD64_REL32, Ctx)
               | reloc_branch_4byte_pcrel \<Rightarrow> Inr (IMAGE_REL_AMD64_REL32, Ctx)
               | FK_Data_4 \<Rightarrow>
                   if Modifier = VK_COFF_IMGREL32 then Inr (IMAGE_REL_AMD64_ADDR32NB, Ctx)
                   else if Modifier = VK_SECREL then Inr (IMAGE_REL_AMD64_SECREL, Ctx)
                   else Inr (IMAGE_REL_AMD64_ADDR32, Ctx)
               | reloc_signed_4byte \<Rightarrow>
                   if Modifier = VK_COFF_IMGREL32 then Inr (IMAGE_REL_AMD64_ADDR32NB, Ctx)
                   else if Modifier = VK_SECREL then Inr (IMAGE_REL_AMD64_SECREL, Ctx)
                   else Inr (IMAGE_REL_AMD64_ADDR32, Ctx)
               | reloc_signed_4byte_relax \<Rightarrow>
                   if Modifier = VK_COFF_IMGREL32 then Inr (IMAGE_REL_AMD64_ADDR32NB, Ctx)
                   else if Modifier = VK_SECREL then Inr (IMAGE_REL_AMD64_SECREL, Ctx)
                   else Inr (IMAGE_REL_AMD64_ADDR32, Ctx)
               | FK_Data_8 \<Rightarrow> Inr (IMAGE_REL_AMD64_ADDR64, Ctx)
               | FK_SecRel_2 \<Rightarrow> Inr (IMAGE_REL_AMD64_SECTION, Ctx)
               | FK_SecRel_4 \<Rightarrow> Inr (IMAGE_REL_AMD64_SECREL, Ctx)
               | FK_Other k \<Rightarrow>
                   Inr (IMAGE_REL_AMD64_ADDR32,
                        reportError (getLoc Fixup) ''unsupported relocation type'' Ctx))
            else if getMachine W = IMAGE_FILE_MACHINE_I386 then
              (case FixupKind of
                 FK_PCRel_4 \<Rightarrow> Inr (IMAGE_REL_I386_REL32, Ctx)
               | reloc_riprel_4byte \<Rightarrow> Inr (IMAGE_REL_I386_REL32, Ctx)
               | reloc_riprel_4byte_movq_load \<Rightarrow> Inr (IMAGE_REL_I386_REL32, Ctx)
               | FK_Data_4 \<Rightarrow>
                   if Modifier = VK_COFF_IMGREL32 then Inr (IMAGE_REL_I386_DIR32NB, Ctx)
                   else if Modifier = VK_SECREL then Inr (IMAGE_REL_AMD64_SECREL, Ctx)
                   else Inr (IMAGE_REL_I386_DIR32, Ctx)
               | reloc_signed_4byte \<Rightarrow>
                   if Modifier = VK_COFF_IMGREL32 then Inr (IMAGE_REL_I386_DIR32NB, Ctx)
                   else if Modifier = VK_SECREL then Inr (IMAGE_REL_AMD64_SECREL, Ctx)
                   else Inr (IMAGE_REL_I386_DIR32, Ctx)
               | reloc_signed_4byte_relax \<Rightarrow>
                   if Modifier = VK_COFF_IMGREL32 then Inr (IMAGE_REL_I386_DIR32NB, Ctx)
                   else if Modifier = VK_SECREL then Inr (IMAGE_REL_AMD64_SECREL, Ctx)
                   else Inr (IMAGE_REL_I386_DIR32, Ctx)
               | FK_SecRel_2 \<Rightarrow> Inr (IMAGE_REL_I386_SECTION, Ctx)
               | FK_SecRel_4 \<Rightarrow> Inr (IMAGE_REL_I386_SECREL, Ctx)
               | _ \<Rightarrow>
                   Inr (IMAGE_REL_I386_DIR32,
                        reportError (getLoc Fixup) ''unsupported relocation type'' Ctx))
            else Inl UnsupportedMachine)"

section \<open>Short import files (llvm/Object/VPEImportFile.h)\<close>

subsection \<open>Export descriptors\<close>

text \<open>\<open>struct VPEShortExport\<close>, with the defaults of its member initialisers.\<close>

record VPEShortExport =
  Name :: string
  ExtName :: string
  SymbolName :: string
  AliasTarget :: string
  Ordinal :: "16 word"
  Noname :: bool
  Data :: bool
  Private :: bool
  Constant :: bool

definition operator_eq :: "VPEShortExport \<Rightarrow> VPEShortExport \<Rightarrow> bool" where
  "operator_eq L R =
     (Name L = Name R \<and> ExtName L = ExtName R \<and>
      Ordinal L = Ordinal R \<and> Noname L = Noname R \<and>
      Data L = Data R \<and> Private L = Private R)"

definition operator_neq :: "VPEShortExport \<Rightarrow> VPEShortExport \<Rightarrow> bool" where
  "operator_neq L R = (\<not> operator_eq L R)"

subsection \<open>The import file and its symbolic view\<close>

text \<open>
  Modelled from the spec: \<open>vpe_import_header\<close> and \<open>VPE::IMPORT_DATA\<close> are declared in
  llvm/Object/VPE.h, which is not among the sources. The spec gives the header a machine,
  a type tag telling a code import from a data import and a name-type tag telling lookup
  by ordinal from lookup by name.
\<close>

datatype ImportType = IMPORT_CODE | IMPORT_DATA

datatype ImportNameType = IMPORT_ORDINAL | IMPORT_NAME

record vpe_import_header =
  HeaderMachine :: MachineTypes
  HeaderType :: ImportType
  HeaderNameType :: ImportNameType

text \<open>
  The buffer of a \<open>VPEImportFile\<close>: the header at its start and, from
  \<open>Data.getBufferStart() + sizeof(vpe_import_header)\<close> on, the bytes that follow it.
\<close>

record VPEImportFile =
  Header :: vpe_import_header
  Payload :: string

definition NUL :: char where
  "NUL = CHR 0x00"

text \<open>Modelled from the spec: \<open>SymbolRef::SF_Global\<close> of llvm/Object/SymbolicFile.h, the
  flag of a globally visible symbol.\<close>

definition SF_Global :: "32 word" where
  "SF_Global = push_bit 1 1"

definition getVPEImportHeader :: "VPEImportFile \<Rightarrow> vpe_import_header" where
  "getVPEImportHeader F = Header F"

definition isData :: "VPEImportFile \<Rightarrow> bool" where
  "isData F = (HeaderType (getVPEImportHeader F) = IMPORT_DATA)"

text \<open>\<open>DataRefImpl\<close> is read through its member \<open>p\<close>, a \<open>uintptr_t\<close>.\<close>

definition moveSymbolNext :: "64 word \<Rightarrow> 64 word" where
  "moveSymbolNext Symb = Symb + 1"

text \<open>
  \<open>printSymbolName\<close> appends to the stream the C string that starts right after the
  header, whatever \<open>Symb\<close> is.
\<close>

definition printSymbolName :: "VPEImportFile \<Rightarrow> string \<Rightarrow> 64 word \<Rightarrow> string" where
  "printSymbolName F OS Symb = OS @ takeWhile (\<lambda>c. c \<noteq> NUL) (Payload F)"

definition getSymbolFlags :: "VPEImportFile \<Rightarrow> 64 word \<Rightarrow> 32 word" where
  "getSymbolFlags F Symb = SF_Global"

definition symbol_begin :: "VPEImportFile \<Rightarrow> 64 word" where
  "symbol_begin F = 0"

definition symbol_end :: "VPEImportFile \<Rightarrow> 64 word" where
  "symbol_end F = (if isData F then 1 else 2)"

text \<open>
  Reading the file through the symbolic view: the loop of a generic consumer,
  \<open>for (I = symbol_begin(); I != symbol_end(); ++I)\<close>, collecting the printed name and the
  flags of every entry.
\<close>

function symbolsFrom :: "VPEImportFile \<Rightarrow> 64 word \<Rightarrow> (string \<times> 32 word) list" where
  "symbolsFrom F Symb =
     (if Symb = symbol_end F then []
      else (printSymbolName F [] Symb, getSymbolFlags F Symb)
             # symbolsFrom F (moveSymbolNext Symb))"
  by pat_completeness auto
termination
proof (relation "measure (\<lambda>(F, Symb). unat (symbol_end F - Symb))")
  show "wf (measure (\<lambda>(F, Symb). unat (symbol_end F - Symb)))"
    by simp
next
  fix F :: VPEImportFile and Symb :: "64 word"
  assume "Symb \<noteq> symbol_end F"
  then have nz: "symbol_end F - Symb \<noteq> 0"
    by simp
  have step: "symbol_end F - moveSymbolNext Symb = (symbol_end F - Symb) - 1"
    by (simp add: moveSymbolNext_def)
  have "unat (symbol_end F - moveSymbolNext Symb) = unat (symbol_end F - Symb) - 1"
    unfolding step by (rule unat_minus_one [OF nz])
  moreover from nz have "unat (symbol_end F - Symb) \<noteq> 0"
    by (simp add: unat_eq_zero)
  ultimately show "((F, moveSymbolNext Symb), (F, Symb))
      \<in> measure (\<lambda>(F, Symb). unat (symbol_end F - Symb))"
    by simp
qed

definition symbols :: "VPEImportFile \<Rightarrow> (string \<times> 32 word) list" where
  "symbols F = symbolsFrom F (symbol_begin F)"

subsection \<open>The encoder\<close>

text \<open>
  Modelled from the spec: \<open>writeImportLibrary\<close> is only declared in VPEImportFile.h; the
  record it writes for one export is not among the sources. By the spec the header carries
  the machine, the code or data tag taken from the descriptor's data flag and the name-type
  tag taken from its noname flag; the first embedded string is the external lookup name
  (the renamed export name if present, else the original name), null-terminated; a code
  import carries the mangled symbol name as a second null-terminated string, a data import
  carries only the one name.
\<close>

definition externalName :: "VPEShortExport \<Rightarrow> string" where
  "externalName E = (if ExtName E = [] then Name E else ExtName E)"

definition encodeShortImport :: "MachineTypes \<Rightarrow> VPEShortExport \<Rightarrow> VPEImportFile" where
  "encodeShortImport M E =
     \<lparr>Header = \<lparr>HeaderMachine = M,
                 HeaderType = (if Data E then IMPORT_DATA else IMPORT_CODE),
                 HeaderNameType = (if Noname E then IMPORT_ORDINAL else IMPORT_NAME)\<rparr>,
      Payload = externalName E @ [NUL] @ (if Data E then [] else SymbolName E @ [NUL])\<rparr>"

declare symbolsFrom.simps [simp del]

section \<open>Properties of the symbol attribute model\<close>

subsection \<open>The flags word, bit by bit\<close>

lemma bit_SF_WeakExternal: "bit SF_WeakExternal n = (n = 8)"
  unfolding SF_WeakExternal_def
  using bit_exp_iff [where ?'a = "16 word", of 8 n] by auto

lemma bit_SF_ClassMask: "bit SF_ClassMask n = (n < 8)"
  unfolding SF_ClassMask_def
  using bit_mask_iff [where ?'a = "16 word", of 8 n] by (auto simp add: mask_eq_exp_minus_1)

lemma bit_Flags_modifyFlags:
  "bit (Flags (modifyFlags Value Mask s)) n =
     (bit (Flags s) n \<and> \<not> bit Mask n \<or> bit Value n)"
  by (auto simp add: modifyFlags_def bit_or_iff bit_and_iff bit_not_iff
      dest: bit_imp_le_length)

lemma bit_getClass: "bit (getClass s) n = (bit (Flags s) n \<and> n < 8)"
  by (simp add: getClass_def getFlags_def SF_ClassShift_def bit_and_iff bit_SF_ClassMask)

lemma isWeakExternal_bit: "isWeakExternal s = bit (Flags s) 8"
proof -
  have "Flags s AND SF_WeakExternal \<noteq> 0" if "bit (Flags s) 8"
  proof
    assume "Flags s AND SF_WeakExternal = 0"
    then have "bit (Flags s AND SF_WeakExternal) 8 = bit (0 :: 16 word) 8"
      by simp
    with that show False
      by (simp add: bit_and_iff bit_SF_WeakExternal)
  qed
  moreover have "Flags s AND SF_WeakExternal = 0" if "\<not> bit (Flags s) 8"
    using that by (intro bit_word_eqI) (auto simp add: bit_and_iff bit_SF_WeakExternal)
  ultimately show ?thesis
    by (auto simp add: isWeakExternal_def getFlags_def)
qed

lemma bit_Flags_setClass:
  "bit (Flags (setClass c s)) n = (bit (Flags s) n \<and> \<not> n < 8 \<or> bit c n)"
  by (simp add: setClass_def SF_ClassShift_def bit_Flags_modifyFlags bit_SF_ClassMask)

lemma bit_Flags_setIsWeakExternal:
  "bit (Flags (setIsWeakExternal s)) n = (bit (Flags s) n \<or> n = 8)"
  by (auto simp add: setIsWeakExternal_def bit_Flags_modifyFlags bit_SF_WeakExternal)

text \<open>A storage class that fits in 8 bits has no bit set from bit 8 on.\<close>

lemma class_fits_bit:
  assumes "(c :: 16 word) \<le> 0xFF"
  shows "bit c n \<longrightarrow> n < 8"
proof -
  from assms have "c < 2 ^ 8"
    by (simp add: word_less_nat_alt word_le_nat_alt)
  then have "c AND mask 8 = c"
    by (simp add: less_mask_eq)
  then have "bit c n = bit (c AND mask 8) n"
    by simp
  then show ?thesis
    by (auto simp add: bit_and_iff bit_mask_iff)
qed

subsection \<open>What each setter does to each getter\<close>

lemma getClass_setClass:
  assumes "(c :: 16 word) \<le> 0xFF"
  shows "getClass (setClass c s) = c"
proof (rule bit_word_eqI)
  fix n
  show "bit (getClass (setClass c s)) n = bit c n"
    using class_fits_bit [OF assms, of n] by (auto simp add: bit_getClass bit_Flags_setClass)
qed

lemma isWeakExternal_setClass:
  "isWeakExternal (setClass c s) = (isWeakExternal s \<or> bit c 8)"
  by (simp add: isWeakExternal_bit bit_Flags_setClass)

lemma getClass_setIsWeakExternal: "getClass (setIsWeakExternal s) = getClass s"
proof (rule bit_word_eqI)
  fix n
  show "bit (getClass (setIsWeakExternal s)) n = bit (getClass s) n"
    by (auto simp add: bit_getClass bit_Flags_setIsWeakExternal)
qed

lemma isWeakExternal_setIsWeakExternal: "isWeakExternal (setIsWeakExternal s)"
  by (simp add: isWeakExternal_bit bit_Flags_setIsWeakExternal)

lemma isWeakExternal_setType: "isWeakExternal (setType Ty s) = isWeakExternal s"
  by (simp add: isWeakExternal_def getFlags_def setType_def)

lemma setIsWeakExternal_twice:
  "setIsWeakExternal (setIsWeakExternal s) = setIsWeakExternal s"
proof -
  have "Flags (setIsWeakExternal (setIsWeakExternal s)) = Flags (setIsWeakExternal s)"
    by (rule bit_word_eqI) (auto simp add: bit_Flags_setIsWeakExternal)
  then show ?thesis
    by (simp add: setIsWeakExternal_def modifyFlags_def)
qed

lemma applyOp_keeps_weak: "isWeakExternal s \<Longrightarrow> isWeakExternal (applyOp op s)"
  by (cases op)
    (simp_all add: isWeakExternal_setType isWeakExternal_setClass
      isWeakExternal_setIsWeakExternal)

lemma applyOps_keeps_weak: "isWeakExternal s \<Longrightarrow> isWeakExternal (applyOps ops s)"
  by (induction ops arbitrary: s) (simp_all add: applyOp_keeps_weak)

subsection \<open>C8: storage class and weak-external flag do not interfere\<close>

text \<open>
  C8 as stated, for every storage class \<open>c\<close> that \<open>setClass\<close> accepts (a \<open>uint16_t\<close>), fails:
  \<open>getClass\<close> reads only bits 0 to 7 of the flags word, so after \<open>setClass(0x100)\<close> on a
  new symbol it returns 0, not \<open>0x100\<close>.
\<close>

theorem setClass_getClass_counterexample:
  "getClass (setClass 0x100 newSymbol) \<noteq> 0x100"
  by (simp add: getClass_def setClass_def modifyFlags_def getFlags_def SF_ClassMask_def
      SF_ClassShift_def newSymbol_def)

text \<open>
  With \<open>modifyFlags\<close> as modelled (the value is not masked), the same call also sets the
  weak-external bit of a symbol that was never declared weak.
\<close>

lemma setClass_wide_value_sets_weak:
  "\<not> isWeakExternal newSymbol \<and> isWeakExternal (setClass 0x100 newSymbol)"
  by (simp add: isWeakExternal_def setClass_def modifyFlags_def getFlags_def SF_ClassMask_def
      SF_ClassShift_def SF_WeakExternal_def newSymbol_def)

text \<open>
  C8, amended: for every symbol \<open>s\<close>, whatever was called on it before, and every storage
  class \<open>c\<close> that fits in 8 bits (\<open>c \<le> 0xFF\<close>), \<open>setClass(c)\<close> makes \<open>getClass()\<close> return
  \<open>c\<close> and leaves \<open>isWeakExternal()\<close> unchanged, also right after \<open>setIsWeakExternal()\<close>;
  and \<open>setIsWeakExternal()\<close> leaves \<open>getClass()\<close> unchanged.
\<close>

theorem setClass_setIsWeakExternal_isolated:
  assumes "(c :: 16 word) \<le> 0xFF"
  shows "getClass (setClass c s) = c \<and>
         isWeakExternal (setClass c s) = isWeakExternal s \<and>
         getClass (setClass c (setIsWeakExternal s)) = c \<and>
         isWeakExternal (setClass c (setIsWeakExternal s)) \<and>
         getClass (setIsWeakExternal s) = getClass s \<and>
         getClass (setIsWeakExternal (setClass c s)) = c"
proof -
  from assms have "\<not> bit c 8"
    using class_fits_bit [OF assms, of 8] by simp
  then show ?thesis
    using assms
    by (simp add: getClass_setClass isWeakExternal_setClass getClass_setIsWeakExternal
        isWeakExternal_setIsWeakExternal)
qed

theorem setClass_setIsWeakExternal_isolated_witness:
  "(0x42 :: 16 word) \<le> 0xFF \<and>
   getClass (setClass 0x42 (setIsWeakExternal newSymbol)) = 0x42 \<and>
   isWeakExternal (setClass 0x42 (setIsWeakExternal newSymbol)) \<and>
   getClass (setIsWeakExternal (setClass 0x42 newSymbol)) = 0x42"
  using setClass_setIsWeakExternal_isolated [of "0x42" newSymbol]
  by simp

subsection \<open>C9: the weak-external flag is set once and for all\<close>

text \<open>
  C9: for every symbol, calling \<open>setIsWeakExternal()\<close> twice leaves the symbol in the same
  state as calling it once, hence with the same \<open>getClass\<close>, \<open>getType\<close> and
  \<open>isWeakExternal\<close>; the call sets the flag; and once the flag is set, no run of
  \<open>setType\<close>, \<open>setClass\<close> and \<open>setIsWeakExternal\<close> calls clears it.
\<close>

theorem setIsWeakExternal_idempotent_monotone:
  "setIsWeakExternal (setIsWeakExternal s) = setIsWeakExternal s \<and>
   getClass (setIsWeakExternal (setIsWeakExternal s)) = getClass (setIsWeakExternal s) \<and>
   getType (setIsWeakExternal (setIsWeakExternal s)) = getType (setIsWeakExternal s) \<and>
   isWeakExternal (setIsWeakExternal (setIsWeakExternal s))
     = isWeakExternal (setIsWeakExternal s) \<and>
   isWeakExternal (setIsWeakExternal s) \<and>
   (isWeakExternal s \<longrightarrow> isWeakExternal (applyOps ops s))"
proof -
  have once: "setIsWeakExternal (setIsWeakExternal s) = setIsWeakExternal s"
    by (rule setIsWeakExternal_twice)
  have flag: "isWeakExternal (setIsWeakExternal s)"
    by (rule isWeakExternal_setIsWeakExternal)
  have kept: "isWeakExternal s \<longrightarrow> isWeakExternal (applyOps ops s)"
    by (simp add: applyOps_keeps_weak)
  from once flag kept show ?thesis
    by simp
qed

theorem setIsWeakExternal_idempotent_monotone_witness:
  "isWeakExternal (setIsWeakExternal newSymbol) \<and>
   isWeakExternal
     (applyOps [SetClass 0, SetType 5, SetClass 0xFFFF, SetClass 0xFF, SetIsWeakExternal]
        (setIsWeakExternal newSymbol))"
  using setIsWeakExternal_idempotent_monotone [of newSymbol "[]"]
    setIsWeakExternal_idempotent_monotone [of "setIsWeakExternal newSymbol"
      "[SetClass 0, SetType 5, SetClass 0xFFFF, SetClass 0xFF, SetIsWeakExternal]"]
  by blast

section \<open>Properties of the relocation resolver\<close>

lemmas resolver_defs =
  getRelocType_def createX86VPEObjectWriter_def getMachine_def getKind_def getLoc_def

text \<open>
  The modifier is read before the dispatch, so a result needs a target whose modifier can
  be read: an absolute target (modifier none) or one with a symbol \<open>SymA\<close>.
\<close>

lemma getModifier_absolute: "getModifier \<lparr>SymA = None, SymB = None, Cst = c\<rparr> = Inr VK_None"
  by (simp add: getModifier_def isAbsolute_def)

lemma getModifier_symbol: "getModifier \<lparr>SymA = Some k, SymB = b, Cst = c\<rparr> = Inr k"
  by (simp add: getModifier_def isAbsolute_def)

subsection \<open>C1: the dispatch table of the 64-bit machine\<close>

text \<open>
  C1: on the resolver constructed for the 64-bit machine, with \<open>IsCrossSection = false\<close>
  and a target whose modifier is \<open>Modifier\<close>, every fixup of kind \<open>FK_PCRel_4\<close>,
  \<open>reloc_riprel_4byte\<close>, \<open>reloc_riprel_4byte_movq_load\<close>, \<open>reloc_riprel_4byte_relax\<close>,
  \<open>reloc_riprel_4byte_relax_rex\<close> or \<open>reloc_branch_4byte_pcrel\<close> resolves to
  \<open>IMAGE_REL_AMD64_REL32\<close>; every fixup of kind \<open>FK_Data_4\<close>, \<open>reloc_signed_4byte\<close> or
  \<open>reloc_signed_4byte_relax\<close> resolves to \<open>IMAGE_REL_AMD64_ADDR32NB\<close> when the modifier is
  image-relative, to \<open>IMAGE_REL_AMD64_SECREL\<close> when it is section-relative and to
  \<open>IMAGE_REL_AMD64_ADDR32\<close> otherwise; \<open>FK_Data_8\<close> resolves to \<open>IMAGE_REL_AMD64_ADDR64\<close>,
  \<open>FK_SecRel_2\<close> to \<open>IMAGE_REL_AMD64_SECTION\<close> and \<open>FK_SecRel_4\<close> to
  \<open>IMAGE_REL_AMD64_SECREL\<close>. No diagnostic is reported: the context comes back as it was.
\<close>

theorem getRelocType_amd64_table:
  assumes "getModifier Target = Inr Modifier"
  shows
   "getRelocType (createX86VPEObjectWriter True) Ctx Target
        (Fixup\<lparr>Kind := FK_PCRel_4\<rparr>) False
      = Inr (IMAGE_REL_AMD64_REL32, Ctx) \<and>
    getRelocType (createX86VPEObjectWriter True) Ctx Target
        (Fixup\<lparr>Kind := reloc_riprel_4byte\<rparr>) False
      = Inr (IMAGE_REL_AMD64_REL32, Ctx) \<and>
    getRelocType (createX86VPEObjectWriter True) Ctx Target
        (Fixup\<lparr>Kind := reloc_riprel_4byte_movq_load\<rparr>) False
      = Inr (IMAGE_REL_AMD64_REL32, Ctx) \<and>
    getRelocType (createX86VPEObjectWriter True) Ctx Target
        (Fixup\<lparr>Kind := reloc_riprel_4byte_relax\<rparr>) False
      = Inr (IMAGE_REL_AMD64_REL32, Ctx) \<and>
    getRelocType (createX86VPEObjectWriter True) Ctx Target
        (Fixup\<lparr>Kind := reloc_riprel_4byte_relax_rex\<rparr>) False
      = Inr (IMAGE_REL_AMD64_REL32, Ctx) \<and>
    getRelocType (createX86VPEObjectWriter True) Ctx Target
        (Fixup\<lparr>Kind := reloc_branch_4byte_pcrel\<rparr>) False
      = Inr (IMAGE_REL_AMD64_REL32, Ctx) \<and>
    getRelocType (createX86VPEObjectWriter True) Ctx Target
        (Fixup\<lparr>Kind := FK_Data_4\<rparr>) False
      = Inr (if Modifier = VK_COFF_IMGREL32 then IMAGE_REL_AMD64_ADDR32NB
             else if Modifier = VK_SECREL then IMAGE_REL_AMD64_SECREL
             else IMAGE_REL_AMD64_ADDR32, Ctx) \<and>
    getRelocType (createX86VPEObjectWriter True) Ctx Target
        (Fixup\<lparr>Kind := reloc_signed_4byte\<rparr>) False
      = Inr (if Modifier = VK_COFF_IMGREL32 then IMAGE_REL_AMD64_ADDR32NB
             else if Modifier = VK_SECREL then IMAGE_REL_AMD64_SECREL
             else IMAGE_REL_AMD64_ADDR32, Ctx) \<and>
    getRelocType (createX86VPEObjectWriter True) Ctx Target
        (Fixup\<lparr>Kind := reloc_signed_4byte_relax\<rparr>) False
      = Inr (if Modifier = VK_COFF_IMGREL32 then IMAGE_REL_AMD64_ADDR32NB
             else if Modifier = VK_SECREL then IMAGE_REL_AMD64_SECREL
             else IMAGE_REL_AMD64_ADDR32, Ctx) \<and>
    getRelocType (createX86VPEObjectWriter True) Ctx Target
        (Fixup\<lparr>Kind := FK_Data_8\<rparr>) False
      = Inr (IMAGE_REL_AMD64_ADDR64, Ctx) \<and>
    getRelocType (createX86VPEObjectWriter True) Ctx Target
        (Fixup\<lparr>Kind := FK_SecRel_2\<rparr>) False
      = Inr (IMAGE_REL_AMD64_SECTION, Ctx) \<and>
    getRelocType (createX86VPEObjectWriter True) Ctx Target
        (Fixup\<lparr>Kind := FK_SecRel_4\<rparr>) False
      = Inr (IMAGE_REL_AMD64_SECREL, Ctx)"
  using assms by (simp add: resolver_defs)

theorem getRelocType_amd64_table_witness:
  "getModifier \<lparr>SymA = Some VK_COFF_IMGREL32, SymB = None, Cst = 0\<rparr> = Inr VK_COFF_IMGREL32 \<and>
   getRelocType (createX86VPEObjectWriter True) \<lparr>Diagnostics = []\<rparr>
       \<lparr>SymA = Some VK_COFF_IMGREL32, SymB = None, Cst = 0\<rparr>
       \<lparr>Kind = reloc_branch_4byte_pcrel, Loc = 7, Offset = 0\<rparr> False
     = Inr (IMAGE_REL_AMD64_REL32, \<lparr>Diagnostics = []\<rparr>) \<and>
   getRelocType (createX86VPEObjectWriter True) \<lparr>Diagnostics = []\<rparr>
       \<lparr>SymA = Some VK_COFF_IMGREL32, SymB = None, Cst = 0\<rparr>
       \<lparr>Kind = FK_Data_4, Loc = 7, Offset = 0\<rparr> False
     = Inr (IMAGE_REL_AMD64_ADDR32NB, \<lparr>Diagnostics = []\<rparr>) \<and>
   getRelocType (createX86VPEObjectWriter True) \<lparr>Diagnostics = []\<rparr>
       \<lparr>SymA = Some VK_COFF_IMGREL32, SymB = None, Cst = 0\<rparr>
       \<lparr>Kind = FK_Data_8, Loc = 7, Offset = 0\<rparr> False
     = Inr (IMAGE_REL_AMD64_ADDR64, \<lparr>Diagnostics = []\<rparr>)"
  using getRelocType_amd64_table
    [of "\<lparr>SymA = Some VK_COFF_IMGREL32, SymB = None, Cst = 0\<rparr>" VK_COFF_IMGREL32
      "\<lparr>Diagnostics = []\<rparr>" "\<lparr>Kind = FK_Other 0, Loc = 7, Offset = 0\<rparr>"]
  by (simp add: getModifier_symbol)

subsection \<open>C2: the section-relative code of the 32-bit machine\<close>

text \<open>
  The two machines' section-relative constants have the same published value, so the
  number returned is also the one \<open>IMAGE_REL_I386_SECREL\<close> names.
\<close>

lemma secrel_constants_coincide: "IMAGE_REL_AMD64_SECREL = IMAGE_REL_I386_SECREL"
  by (simp add: IMAGE_REL_AMD64_SECREL_def IMAGE_REL_I386_SECREL_def)

text \<open>
  C2 as stated, for every 4-byte absolute or signed fixup with the section-relative
  modifier, fails when the fixup is cross-section: a \<open>FK_Data_4\<close> (and likewise a
  \<open>reloc_signed_4byte\<close>) fixup with \<open>IsCrossSection = true\<close> is dispatched as
  \<open>FK_PCRel_4\<close>, so on the 32-bit machine it returns \<open>IMAGE_REL_I386_REL32\<close> whatever the
  modifier is, and that is not \<open>IMAGE_REL_AMD64_SECREL\<close>.
\<close>

theorem getRelocType_i386_secrel_cross_section_counterexample:
  "getRelocType (createX86VPEObjectWriter False) \<lparr>Diagnostics = []\<rparr>
       \<lparr>SymA = Some VK_SECREL, SymB = None, Cst = 0\<rparr>
       \<lparr>Kind = FK_Data_4, Loc = 7, Offset = 0\<rparr> True
     = Inr (IMAGE_REL_I386_REL32, \<lparr>Diagnostics = []\<rparr>) \<and>
   getRelocType (createX86VPEObjectWriter False) \<lparr>Diagnostics = []\<rparr>
       \<lparr>SymA = Some VK_SECREL, SymB = None, Cst = 0\<rparr>
       \<lparr>Kind = reloc_signed_4byte, Loc = 7, Offset = 0\<rparr> True
     = Inr (IMAGE_REL_I386_REL32, \<lparr>Diagnostics = []\<rparr>) \<and>
   IMAGE_REL_I386_REL32 \<noteq> IMAGE_REL_AMD64_SECREL"
  by (simp add: resolver_defs getModifier_symbol
      IMAGE_REL_I386_REL32_def IMAGE_REL_AMD64_SECREL_def)

text \<open>
  C2, amended: on the 32-bit machine with \<open>IsCrossSection = false\<close>, a 4-byte absolute or
  signed fixup (\<open>FK_Data_4\<close>, \<open>reloc_signed_4byte\<close>, \<open>reloc_signed_4byte_relax\<close>) whose
  target has the section-relative modifier resolves to the constant of the 64-bit machine,
  \<open>IMAGE_REL_AMD64_SECREL\<close>, and reports nothing; the value of that constant is also the
  value of \<open>IMAGE_REL_I386_SECREL\<close>.
\<close>

theorem getRelocType_i386_secrel:
  assumes "getModifier Target = Inr VK_SECREL"
  shows
   "getRelocType (createX86VPEObjectWriter False) Ctx Target
        (Fixup\<lparr>Kind := FK_Data_4\<rparr>) False
      = Inr (IMAGE_REL_AMD64_SECREL, Ctx) \<and>
    getRelocType (createX86VPEObjectWriter False) Ctx Target
        (Fixup\<lparr>Kind := reloc_signed_4byte\<rparr>) False
      = Inr (IMAGE_REL_AMD64_SECREL, Ctx) \<and>
    getRelocType (createX86VPEObjectWriter False) Ctx Target
        (Fixup\<lparr>Kind := reloc_signed_4byte_relax\<rparr>) False
      = Inr (IMAGE_REL_AMD64_SECREL, Ctx) \<and>
    IMAGE_REL_AMD64_SECREL = IMAGE_REL_I386_SECREL"
  using assms by (simp add: resolver_defs secrel_constants_coincide)

theorem getRelocType_i386_secrel_witness:
  "getModifier \<lparr>SymA = Some VK_SECREL, SymB = None, Cst = 0\<rparr> = Inr VK_SECREL \<and>
   getRelocType (createX86VPEObjectWriter False) \<lparr>Diagnostics = []\<rparr>
       \<lparr>SymA = Some VK_SECREL, SymB = None, Cst = 0\<rparr>
       \<lparr>Kind = FK_Data_4, Loc = 7, Offset = 0\<rparr> False
     = Inr (IMAGE_REL_AMD64_SECREL, \<lparr>Diagnostics = []\<rparr>)"
  using getRelocType_i386_secrel
    [of "\<lparr>SymA = Some VK_SECREL, SymB = None, Cst = 0\<rparr>"
      "\<lparr>Diagnostics = []\<rparr>" "\<lparr>Kind = FK_Other 0, Loc = 7, Offset = 0\<rparr>"]
  by (simp add: getModifier_symbol)

subsection \<open>C3: relative kinds on the 32-bit machine\<close>

text \<open>
  C3 as stated, for every relative-addressing variant, fails: the \<open>switch\<close> of the 32-bit
  machine has no case for the relaxed RIP-relative kinds nor for the relative branch. A
  \<open>reloc_branch_4byte_pcrel\<close> fixup that is not cross-section, on an absolute target,
  falls to \<open>default\<close>: it reports \<open>unsupported relocation type\<close> and returns
  \<open>IMAGE_REL_I386_DIR32\<close>, which is not \<open>IMAGE_REL_I386_REL32\<close>.
\<close>

theorem getRelocType_i386_branch_counterexample:
  "getRelocType (createX86VPEObjectWriter False) \<lparr>Diagnostics = []\<rparr>
       \<lparr>SymA = None, SymB = None, Cst = 0\<rparr>
       \<lparr>Kind = reloc_branch_4byte_pcrel, Loc = 7, Offset = 0\<rparr> False
     = Inr (IMAGE_REL_I386_DIR32, \<lparr>Diagnostics = [(7, ''unsupported relocation type'')]\<rparr>) \<and>
   IMAGE_REL_I386_DIR32 \<noteq> IMAGE_REL_I386_REL32"
  by (simp add: resolver_defs getModifier_absolute reportError_def
      IMAGE_REL_I386_DIR32_def IMAGE_REL_I386_REL32_def)

text \<open>
  C3, amended: on the 32-bit machine with \<open>IsCrossSection = false\<close> and a target whose
  modifier can be read, the kinds \<open>FK_PCRel_4\<close>, \<open>reloc_riprel_4byte\<close> and
  \<open>reloc_riprel_4byte_movq_load\<close> resolve to \<open>IMAGE_REL_I386_REL32\<close> without reporting an
  error; the relaxed forms \<open>reloc_riprel_4byte_relax\<close> and \<open>reloc_riprel_4byte_relax_rex\<close>
  and the relative branch \<open>reloc_branch_4byte_pcrel\<close> are unsupported there: they report
  \<open>unsupported relocation type\<close> and return \<open>IMAGE_REL_I386_DIR32\<close>.
\<close>

theorem getRelocType_i386_relative:
  assumes "getModifier Target = Inr Modifier"
  shows
   "getRelocType (createX86VPEObjectWriter False) Ctx Target
        (Fixup\<lparr>Kind := FK_PCRel_4\<rparr>) False
      = Inr (IMAGE_REL_I386_REL32, Ctx) \<and>
    getRelocType (createX86VPEObjectWriter False) Ctx Target
        (Fixup\<lparr>Kind := reloc_riprel_4byte\<rparr>) False
      = Inr (IMAGE_REL_I386_REL32, Ctx) \<and>
    getRelocType (createX86VPEObjectWriter False) Ctx Target
        (Fixup\<lparr>Kind := reloc_riprel_4byte_movq_load\<rparr>) False
      = Inr (IMAGE_REL_I386_REL32, Ctx) \<and>
    getRelocType (createX86VPEObjectWriter False) Ctx Target
        (Fixup\<lparr>Kind := reloc_riprel_4byte_relax\<rparr>) False
      = Inr (IMAGE_REL_I386_DIR32,
             reportError (Loc Fixup) ''unsupported relocation type'' Ctx) \<and>
    getRelocType (createX86VPEObjectWriter False) Ctx Target
        (Fixup\<lparr>Kind := reloc_riprel_4byte_relax_rex\<rparr>) False
      = Inr (IMAGE_REL_I386_DIR32,
             reportError (Loc Fixup) ''unsupported relocation type'' Ctx) \<and>
    getRelocType (createX86VPEObjectWriter False) Ctx Target
        (Fixup\<lparr>Kind := reloc_branch_4byte_pcrel\<rparr>) False
      = Inr (IMAGE_REL_I386_DIR32,
             reportError (Loc Fixup) ''unsupported relocation type'' Ctx)"
  using assms by (simp add: resolver_defs)

theorem getRelocType_i386_relative_witness:
  "getModifier \<lparr>SymA = None, SymB = None, Cst = 0\<rparr> = Inr VK_None \<and>
   getRelocType (createX86VPEObjectWriter False) \<lparr>Diagnostics = []\<rparr>
       \<lparr>SymA = None, SymB = None, Cst = 0\<rparr>
       \<lparr>Kind = FK_PCRel_4, Loc = 7, Offset = 0\<rparr> False
     = Inr (IMAGE_REL_I386_REL32, \<lparr>Diagnostics = []\<rparr>) \<and>
   getRelocType (createX86VPEObjectWriter False) \<lparr>Diagnostics = []\<rparr>
       \<lparr>SymA = None, SymB = None, Cst = 0\<rparr>
       \<lparr>Kind = reloc_riprel_4byte_relax, Loc = 7, Offset = 0\<rparr> False
     = Inr (IMAGE_REL_I386_DIR32, \<lparr>Diagnostics = [(7, ''unsupported relocation type'')]\<rparr>)"
  using getRelocType_i386_relative
    [of "\<lparr>SymA = None, SymB = None, Cst = 0\<rparr>" VK_None
      "\<lparr>Diagnostics = []\<rparr>" "\<lparr>Kind = FK_Other 0, Loc = 7, Offset = 0\<rparr>"]
  by (simp add: getModifier_absolute reportError_def)

subsection \<open>C4: a cross-section fixup of a kind that cannot be represented\<close>

text \<open>
  What the code does on either machine: it reports \<open>Cannot represent this expression\<close> and
  returns \<open>IMAGE_REL_AMD64_ADDR32\<close>, before it looks at the target or at the machine.
\<close>

lemma getRelocType_cross_section_error:
  assumes "Kind Fixup \<noteq> FK_Data_4" and "Kind Fixup \<noteq> reloc_signed_4byte"
  shows "getRelocType W Ctx Target Fixup True
           = Inr (IMAGE_REL_AMD64_ADDR32,
                  reportError (Loc Fixup) ''Cannot represent this expression'' Ctx)"
  using assms by (simp add: resolver_defs)

text \<open>
  C4 at a 2-byte section-index fixup with \<open>IsCrossSection = true\<close> on the 32-bit machine:
  the diagnostic is reported, but the code returned is \<open>IMAGE_REL_AMD64_ADDR32\<close> (2), the
  generic 32-bit absolute code of the 64-bit machine, and not \<open>IMAGE_REL_I386_DIR32\<close> (6),
  the one of the 32-bit machine, which the \<open>default\<close> branch of the 32-bit \<open>switch\<close>
  returns after its own diagnostic.
\<close>

theorem getRelocType_cross_section_i386_fallback:
  "getRelocType (createX86VPEObjectWriter False) \<lparr>Diagnostics = []\<rparr>
       \<lparr>SymA = None, SymB = None, Cst = 0\<rparr>
       \<lparr>Kind = FK_SecRel_2, Loc = 7, Offset = 0\<rparr> True
     = Inr (IMAGE_REL_AMD64_ADDR32,
            \<lparr>Diagnostics = [(7, ''Cannot represent this expression'')]\<rparr>) \<and>
   IMAGE_REL_AMD64_ADDR32 \<noteq> IMAGE_REL_I386_DIR32 \<and>
   getRelocType (createX86VPEObjectWriter False) \<lparr>Diagnostics = []\<rparr>
       \<lparr>SymA = None, SymB = None, Cst = 0\<rparr>
       \<lparr>Kind = FK_Other 0, Loc = 7, Offset = 0\<rparr> False
     = Inr (IMAGE_REL_I386_DIR32,
            \<lparr>Diagnostics = [(7, ''unsupported relocation type'')]\<rparr>)"
  by (simp add: resolver_defs getModifier_absolute reportError_def
      IMAGE_REL_AMD64_ADDR32_def IMAGE_REL_I386_DIR32_def)

subsection \<open>C5: a cross-section 4-byte absolute fixup is resolved as PC-relative\<close>

text \<open>
  C5: for every 4-byte absolute fixup (\<open>FK_Data_4\<close>) with \<open>IsCrossSection = true\<close> on a
  target with modifier none, the resolver returns the 32-bit relative code of its machine,
  \<open>IMAGE_REL_AMD64_REL32\<close> on the 64-bit machine and \<open>IMAGE_REL_I386_REL32\<close> on the 32-bit
  machine, and reports nothing; neither is the absolute code of that machine.
\<close>

theorem getRelocType_cross_section_data4:
  assumes "getModifier Target = Inr VK_None"
  shows
   "getRelocType (createX86VPEObjectWriter True) Ctx Target
        (Fixup\<lparr>Kind := FK_Data_4\<rparr>) True
      = Inr (IMAGE_REL_AMD64_REL32, Ctx) \<and>
    getRelocType (createX86VPEObjectWriter False) Ctx Target
        (Fixup\<lparr>Kind := FK_Data_4\<rparr>) True
      = Inr (IMAGE_REL_I386_REL32, Ctx) \<and>
    IMAGE_REL_AMD64_REL32 \<noteq> IMAGE_REL_AMD64_ADDR32 \<and>
    IMAGE_REL_I386_REL32 \<noteq> IMAGE_REL_I386_DIR32"
  using assms
  by (simp add: resolver_defs IMAGE_REL_AMD64_REL32_def IMAGE_REL_AMD64_ADDR32_def
      IMAGE_REL_I386_REL32_def IMAGE_REL_I386_DIR32_def)

theorem getRelocType_cross_section_data4_witness:
  "getModifier \<lparr>SymA = None, SymB = None, Cst = 0\<rparr> = Inr VK_None \<and>
   getRelocType (createX86VPEObjectWriter True) \<lparr>Diagnostics = []\<rparr>
       \<lparr>SymA = None, SymB = None, Cst = 0\<rparr>
       \<lparr>Kind = FK_Data_4, Loc = 7, Offset = 0\<rparr> True
     = Inr (IMAGE_REL_AMD64_REL32, \<lparr>Diagnostics = []\<rparr>) \<and>
   getRelocType (createX86VPEObjectWriter False) \<lparr>Diagnostics = []\<rparr>
       \<lparr>SymA = None, SymB = None, Cst = 0\<rparr>
       \<lparr>Kind = FK_Data_4, Loc = 7, Offset = 0\<rparr> True
     = Inr (IMAGE_REL_I386_REL32, \<lparr>Diagnostics = []\<rparr>)"
  using getRelocType_cross_section_data4
    [of "\<lparr>SymA = None, SymB = None, Cst = 0\<rparr>"
      "\<lparr>Diagnostics = []\<rparr>" "\<lparr>Kind = FK_Other 0, Loc = 7, Offset = 0\<rparr>"]
  by (simp add: getModifier_absolute)

section \<open>Properties of short import files\<close>

subsection \<open>The symbolic view\<close>

lemma symbolsFrom_end: "symbolsFrom F (symbol_end F) = []"
  by (simp add: symbolsFrom.simps)

lemma symbolsFrom_step:
  "Symb \<noteq> symbol_end F \<Longrightarrow>
     symbolsFrom F Symb
       = (printSymbolName F [] Symb, getSymbolFlags F Symb) # symbolsFrom F (Symb + 1)"
  by (subst symbolsFrom.simps) (simp add: moveSymbolNext_def)

text \<open>A C string is read up to its terminator.\<close>

lemma c_string_prefix:
  "NUL \<notin> set xs \<Longrightarrow> takeWhile (\<lambda>c. c \<noteq> NUL) (xs @ NUL # ys) = xs"
  by (induction xs) auto

lemma symbols_data_record:
  assumes "isData F"
  shows "symbols F = [(takeWhile (\<lambda>c. c \<noteq> NUL) (Payload F), SF_Global)]"
proof -
  from assms have e: "symbol_end F = 1"
    by (simp add: symbol_end_def)
  have "symbolsFrom F 0 = (printSymbolName F [] 0, getSymbolFlags F 0) # symbolsFrom F (0 + 1)"
    by (rule symbolsFrom_step) (simp add: e)
  moreover have "symbolsFrom F 1 = []"
    using symbolsFrom_end [of F] by (simp add: e)
  ultimately show ?thesis
    by (simp add: symbols_def symbol_begin_def printSymbolName_def getSymbolFlags_def)
qed

lemma symbols_code_record:
  assumes "\<not> isData F"
  shows "symbols F = [(takeWhile (\<lambda>c. c \<noteq> NUL) (Payload F), SF_Global),
                      (takeWhile (\<lambda>c. c \<noteq> NUL) (Payload F), SF_Global)]"
proof -
  from assms have e: "symbol_end F = 2"
    by (simp add: symbol_end_def)
  have "symbolsFrom F 0 = (printSymbolName F [] 0, getSymbolFlags F 0) # symbolsFrom F (0 + 1)"
    by (rule symbolsFrom_step) (simp add: e)
  moreover have "symbolsFrom F 1
      = (printSymbolName F [] 1, getSymbolFlags F 1) # symbolsFrom F (1 + 1)"
    by (rule symbolsFrom_step) (simp add: e)
  moreover have "symbolsFrom F 2 = []"
    using symbolsFrom_end [of F] by (simp add: e)
  ultimately show ?thesis
    by (simp add: symbols_def symbol_begin_def printSymbolName_def getSymbolFlags_def)
qed

lemma isData_encodeShortImport: "isData (encodeShortImport M E) = Data E"
  by (simp add: isData_def encodeShortImport_def getVPEImportHeader_def)

lemma first_string_encodeShortImport:
  "NUL \<notin> set (externalName E) \<Longrightarrow>
     takeWhile (\<lambda>c. c \<noteq> NUL) (Payload (encodeShortImport M E)) = externalName E"
  by (simp add: encodeShortImport_def c_string_prefix)

subsection \<open>C6: reading an encoded record back\<close>

text \<open>
  C6 as stated fails on the names of a code import. The export \<open>foo\<close> with mangled symbol
  name \<open>_foo\<close>, encoded for the 64-bit machine and read back, gives two entries, but both
  print \<open>foo\<close>: \<open>printSymbolName\<close> prints the string after the header for every position and
  never reads the second string, so the entries are not \<open>foo\<close> then \<open>_foo\<close>.
\<close>

theorem symbols_code_import_counterexample:
  "map fst (symbols (encodeShortImport IMAGE_FILE_MACHINE_AMD64
       \<lparr>Name = ''foo'', ExtName = [], SymbolName = ''_foo'', AliasTarget = [],
        Ordinal = 0, Noname = False, Data = False, Private = False, Constant = False\<rparr>))
     = [''foo'', ''foo''] \<and>
   map fst (symbols (encodeShortImport IMAGE_FILE_MACHINE_AMD64
       \<lparr>Name = ''foo'', ExtName = [], SymbolName = ''_foo'', AliasTarget = [],
        Ordinal = 0, Noname = False, Data = False, Private = False, Constant = False\<rparr>))
     \<noteq> [''foo'', ''_foo'']"
  by (simp add: symbols_code_record isData_def getVPEImportHeader_def encodeShortImport_def
      externalName_def NUL_def)

text \<open>
  C6, amended: for every export whose external name contains no null character, encoded
  as a short-import record and read back through the symbolic view, a code-import record
  yields exactly two entries and a data-import record exactly one; every entry is flagged
  globally visible, and every entry, the second of a code import included, prints the
  external name.
\<close>

theorem symbols_encodeShortImport:
  assumes "NUL \<notin> set (externalName E)"
  shows "symbols (encodeShortImport M E)
           = (if Data E then [(externalName E, SF_Global)]
              else [(externalName E, SF_Global), (externalName E, SF_Global)])"
  using assms
  by (simp add: symbols_data_record symbols_code_record isData_encodeShortImport
      first_string_encodeShortImport)

theorem symbols_encodeShortImport_witness:
  "NUL \<notin> set (externalName
       \<lparr>Name = ''foo'', ExtName = [], SymbolName = ''_foo'', AliasTarget = [],
        Ordinal = 0, Noname = False, Data = False, Private = False, Constant = False\<rparr>) \<and>
   symbols (encodeShortImport IMAGE_FILE_MACHINE_AMD64
       \<lparr>Name = ''foo'', ExtName = [], SymbolName = ''_foo'', AliasTarget = [],
        Ordinal = 0, Noname = False, Data = False, Private = False, Constant = False\<rparr>)
     = [(''foo'', SF_Global), (''foo'', SF_Global)] \<and>
   NUL \<notin> set (externalName
       \<lparr>Name = ''bar'', ExtName = ''baz'', SymbolName = ''_bar'', AliasTarget = [],
        Ordinal = 3, Noname = False, Data = True, Private = False, Constant = False\<rparr>) \<and>
   symbols (encodeShortImport IMAGE_FILE_MACHINE_I386
       \<lparr>Name = ''bar'', ExtName = ''baz'', SymbolName = ''_bar'', AliasTarget = [],
        Ordinal = 3, Noname = False, Data = True, Private = False, Constant = False\<rparr>)
     = [(''baz'', SF_Global)]"
  using symbols_encodeShortImport
    [of "\<lparr>Name = ''foo'', ExtName = [], SymbolName = ''_foo'', AliasTarget = [],
          Ordinal = 0, Noname = False, Data = False, Private = False, Constant = False\<rparr>"
        IMAGE_FILE_MACHINE_AMD64]
    symbols_encodeShortImport
    [of "\<lparr>Name = ''bar'', ExtName = ''baz'', SymbolName = ''_bar'', AliasTarget = [],
          Ordinal = 3, Noname = False, Data = True, Private = False, Constant = False\<rparr>"
        IMAGE_FILE_MACHINE_I386]
  by (simp add: externalName_def NUL_def)

subsection \<open>C7: equality of export descriptors\<close>

text \<open>
  C7: two export descriptors that agree on \<open>Name\<close>, \<open>ExtName\<close>, \<open>Ordinal\<close>, \<open>Noname\<close>,
  \<open>Data\<close> and \<open>Private\<close> are equal by \<open>operator==\<close>, whatever their \<open>SymbolName\<close> and
  \<open>AliasTarget\<close> are; two descriptors that differ in one of these six fields are not
  equal; and \<open>operator!=\<close> is the negation.
\<close>

theorem operator_eq_six_fields:
  "(Name L = Name R \<and> ExtName L = ExtName R \<and> Ordinal L = Ordinal R \<and>
    Noname L = Noname R \<and> Data L = Data R \<and> Private L = Private R
      \<longrightarrow> operator_eq L R \<and> \<not> operator_neq L R) \<and>
   (Name L \<noteq> Name R \<or> ExtName L \<noteq> ExtName R \<or> Ordinal L \<noteq> Ordinal R \<or>
    Noname L \<noteq> Noname R \<or> Data L \<noteq> Data R \<or> Private L \<noteq> Private R
      \<longrightarrow> \<not> operator_eq L R \<and> operator_neq L R) \<and>
   operator_eq L (L\<lparr>SymbolName := s, AliasTarget := a\<rparr>)"
proof (intro conjI impI)
  assume "Name L = Name R \<and> ExtName L = ExtName R \<and> Ordinal L = Ordinal R \<and>
    Noname L = Noname R \<and> Data L = Data R \<and> Private L = Private R"
  then have eq: "operator_eq L R"
    by (simp add: operator_eq_def)
  from eq show "operator_eq L R" .
  from eq show "\<not> operator_neq L R"
    by (simp add: operator_neq_def)
next
  assume "Name L \<noteq> Name R \<or> ExtName L \<noteq> ExtName R \<or> Ordinal L \<noteq> Ordinal R \<or>
    Noname L \<noteq> Noname R \<or> Data L \<noteq> Data R \<or> Private L \<noteq> Private R"
  then have neq: "\<not> operator_eq L R"
    by (auto simp add: operator_eq_def)
  from neq show "\<not> operator_eq L R" .
  from neq show "operator_neq L R"
    by (simp add: operator_neq_def)
next
  show "operator_eq L (L\<lparr>SymbolName := s, AliasTarget := a\<rparr>)"
    by (simp add: operator_eq_def)
qed

theorem operator_eq_six_fields_witness:
  "operator_eq
     \<lparr>Name = ''foo'', ExtName = ''ext'', SymbolName = ''_foo'', AliasTarget = [],
      Ordinal = 1, Noname = False, Data = False, Private = True, Constant = False\<rparr>
     \<lparr>Name = ''foo'', ExtName = ''ext'', SymbolName = ''_foo@8'', AliasTarget = ''baz'',
      Ordinal = 1, Noname = False, Data = False, Private = True, Constant = False\<rparr> \<and>
   \<not> operator_eq
     \<lparr>Name = ''foo'', ExtName = ''ext'', SymbolName = ''_foo'', AliasTarget = [],
      Ordinal = 1, Noname = False, Data = False, Private = True, Constant = False\<rparr>
     \<lparr>Name = ''foo'', ExtName = ''ext'', SymbolName = ''_foo'', AliasTarget = [],
      Ordinal = 2, Noname = False, Data = False, Private = True, Constant = False\<rparr>"
  using operator_eq_six_fields
    [of "\<lparr>Name = ''foo'', ExtName = ''ext'', SymbolName = ''_foo'', AliasTarget = [],
          Ordinal = 1, Noname = False, Data = False, Private = True, Constant = False\<rparr>"
        "\<lparr>Name = ''foo'', ExtName = ''ext'', SymbolName = ''_foo@8'', AliasTarget = ''baz'',
          Ordinal = 1, Noname = False, Data = False, Private = True, Constant = False\<rparr>"]
    operator_eq_six_fields
    [of "\<lparr>Name = ''foo'', ExtName = ''ext'', SymbolName = ''_foo'', AliasTarget = [],
          Ordinal = 1, Noname = False, Data = False, Private = True, Constant = False\<rparr>"
        "\<lparr>Name = ''foo'', ExtName = ''ext'', SymbolName = ''_foo'', AliasTarget = [],
          Ordinal = 2, Noname = False, Data = False, Private = True, Constant = False\<rparr>"]
  by simp

subsection \<open>C10: equality ignores the Constant flag\<close>

text \<open>
  C10: two export descriptors that are identical in every field except \<open>Constant\<close> are
  equal by \<open>operator==\<close>; in particular a descriptor is equal to itself with the
  \<open>Constant\<close> flag changed.
\<close>

theorem operator_eq_ignores_Constant:
  "(Name L = Name R \<and> ExtName L = ExtName R \<and> SymbolName L = SymbolName R \<and>
    AliasTarget L = AliasTarget R \<and> Ordinal L = Ordinal R \<and> Noname L = Noname R \<and>
    Data L = Data R \<and> Private L = Private R
      \<longrightarrow> operator_eq L R) \<and>
   operator_eq L (L\<lparr>Constant := c\<rparr>)"
proof
  show "Name L = Name R \<and> ExtName L = ExtName R \<and> SymbolName L = SymbolName R \<and>
    AliasTarget L = AliasTarget R \<and> Ordinal L = Ordinal R \<and> Noname L = Noname R \<and>
    Data L = Data R \<and> Private L = Private R
      \<longrightarrow> operator_eq L R"
    by (simp add: operator_eq_def)
next
  have "Name (L\<lparr>Constant := c\<rparr>) = Name L" and "ExtName (L\<lparr>Constant := c\<rparr>) = ExtName L"
    and "Ordinal (L\<lparr>Constant := c\<rparr>) = Ordinal L" and "Noname (L\<lparr>Constant := c\<rparr>) = Noname L"
    and "Data (L\<lparr>Constant := c\<rparr>) = Data L" and "Private (L\<lparr>Constant := c\<rparr>) = Private L"
    by simp_all
  then show "operator_eq L (L\<lparr>Constant := c\<rparr>)"
    by (simp add: operator_eq_def)
qed

theorem operator_eq_ignores_Constant_witness:
  "Constant
     \<lparr>Name = ''foo'', ExtName = [], SymbolName = ''_foo'', AliasTarget = [],
      Ordinal = 1, Noname = False, Data = True, Private = False, Constant = False\<rparr>
   \<noteq> Constant
     \<lparr>Name = ''foo'', ExtName = [], SymbolName = ''_foo'', AliasTarget = [],
      Ordinal = 1, Noname = False, Data = True, Private = False, Constant = True\<rparr> \<and>
   operator_eq
     \<lparr>Name = ''foo'', ExtName = [], SymbolName = ''_foo'', AliasTarget = [],
      Ordinal = 1, Noname = False, Data = True, Private = False, Constant = False\<rparr>
     \<lparr>Name = ''foo'', ExtName = [], SymbolName = ''_foo'', AliasTarget = [],
      Ordinal = 1, Noname = False, Data = True, Private = False, Constant = True\<rparr>"
  using operator_eq_ignores_Constant
    [of "\<lparr>Name = ''foo'', ExtName = [], SymbolName = ''_foo'', AliasTarget = [],
          Ordinal = 1, Noname = False, Data = True, Private = False, Constant = False\<rparr>"
        "\<lparr>Name = ''foo'', ExtName = [], SymbolName = ''_foo'', AliasTarget = [],
          Ordinal = 1, Noname = False, Data = True, Private = False, Constant = True\<rparr>"]
  by simp

end
